theory Spec2Isabelle
  imports Complex_Main "HOL-Library.Word"
begin

section \<open>JavaScript values and the coercions the module relies on\<close>

text \<open>
  The module \<^verbatim>\<open>src/cm-upgrade.ts\<close> reads an untyped value out of the extension's
  global state, subtracts one of its properties from a time stamp, and divides byte
  counts by a number obtained with \<^verbatim>\<open>parseInt\<close>. These operators coerce their
  operands, so the values are modelled as the language has them.

  Numbers are exact rationals extended with \<open>NaN\<close> and the two infinities. The
  rounding of IEEE doubles is not modelled: statements about time stamps and byte
  counts are made for integers, on which the subtractions and comparisons used here
  are exact.

  A string of the language is its sequence of 16-bit code units. Texts that are only
  passed on (messages, paths, URLs, the labels of the buttons) stay plain strings.
\<close>

type_synonym jsstring = "16 word list"

text \<open>The code unit of an ASCII character, and the string of an ASCII literal.\<close>

definition cu :: "char \<Rightarrow> 16 word" where
  "cu c = of_char c"

definition lit :: "string \<Rightarrow> jsstring" where
  "lit s = map cu s"

datatype jsnum = NaN | PInf | NInf | Fin rat

datatype jsval =
    JUndefined
  | JNull
  | JBool bool
  | JNum jsnum
  | JStr jsstring
  | JArr "jsval list"
  | JObj "(jsstring \<times> jsval) list"

datatype exn =
    InvalidVersionString string
  | TypeError string
  | Error string

fun jneg :: "jsnum \<Rightarrow> jsnum" where
  "jneg NaN = NaN"
| "jneg PInf = NInf"
| "jneg NInf = PInf"
| "jneg (Fin a) = Fin (- a)"

text \<open>The binary \<^verbatim>\<open>-\<close> on numbers.\<close>

fun jsub :: "jsnum \<Rightarrow> jsnum \<Rightarrow> jsnum" where
  "jsub (Fin a) (Fin b) = Fin (a - b)"
| "jsub (Fin a) PInf = NInf"
| "jsub (Fin a) NInf = PInf"
| "jsub PInf (Fin b) = PInf"
| "jsub PInf NInf = PInf"
| "jsub NInf (Fin b) = NInf"
| "jsub NInf PInf = NInf"
| "jsub _ _ = NaN"

text \<open>The binary \<^verbatim>\<open>/\<close> on numbers (the sign of a zero divisor is not modelled).\<close>

fun jdiv :: "jsnum \<Rightarrow> jsnum \<Rightarrow> jsnum" where
  "jdiv (Fin a) (Fin b) =
     (if b = 0 then (if a = 0 then NaN else if 0 < a then PInf else NInf)
      else Fin (a / b))"
| "jdiv (Fin a) PInf = Fin 0"
| "jdiv (Fin a) NInf = Fin 0"
| "jdiv PInf (Fin b) = (if 0 \<le> b then PInf else NInf)"
| "jdiv NInf (Fin b) = (if 0 \<le> b then NInf else PInf)"
| "jdiv _ _ = NaN"

text \<open>The comparison \<^verbatim>\<open>a < b\<close> on numbers: false as soon as one side is \<open>NaN\<close>.\<close>

fun jlt :: "jsnum \<Rightarrow> jsnum \<Rightarrow> bool" where
  "jlt (Fin a) (Fin b) = (a < b)"
| "jlt (Fin a) PInf = True"
| "jlt NInf (Fin b) = True"
| "jlt NInf PInf = True"
| "jlt _ _ = False"

definition jgt :: "jsnum \<Rightarrow> jsnum \<Rightarrow> bool" where
  "jgt a b = jlt b a"

text \<open>Truthiness, as tested by \<^verbatim>\<open>if (pref)\<close> and by \<^verbatim>\<open>||\<close>.\<close>

fun truthy :: "jsval \<Rightarrow> bool" where
  "truthy JUndefined = False"
| "truthy JNull = False"
| "truthy (JBool b) = b"
| "truthy (JNum n) = (n \<noteq> NaN \<and> n \<noteq> Fin 0)"
| "truthy (JStr s) = (s \<noteq> [])"
| "truthy (JArr xs) = True"
| "truthy (JObj kvs) = True"

subsection \<open>Digits and numeric strings\<close>

text \<open>The digits \<open>0\<close> to \<open>9\<close>, \<open>a\<close> to \<open>f\<close> and \<open>A\<close> to \<open>F\<close> with their values.\<close>

definition hexDigit :: "16 word \<Rightarrow> nat option" where
  "hexDigit c = map_of (zip (lit ''0123456789abcdefABCDEF'') ([0 ..< 16] @ [10 ..< 16])) c"

definition digitIn :: "nat \<Rightarrow> 16 word \<Rightarrow> nat option" where
  "digitIn radix c =
     (case hexDigit c of None \<Rightarrow> None | Some d \<Rightarrow> if d < radix then Some d else None)"

definition isDigitIn :: "nat \<Rightarrow> 16 word \<Rightarrow> bool" where
  "isDigitIn radix c = (digitIn radix c \<noteq> None)"

definition digitsValue :: "nat \<Rightarrow> jsstring \<Rightarrow> nat" where
  "digitsValue radix ds =
     foldl (\<lambda>acc c. acc * radix + (case digitIn radix c of None \<Rightarrow> 0 | Some d \<Rightarrow> d)) 0 ds"

text \<open>
  White space and line terminators, as stripped by \<^verbatim>\<open>parseInt\<close> and by the conversion
  of a string to a number: tab, line feed, vertical tab, form feed, carriage return,
  the byte order mark \<open>U+FEFF\<close>, the line and paragraph separators \<open>U+2028\<close> and
  \<open>U+2029\<close>, and the space separators of Unicode (\<open>U+0020\<close>, \<open>U+00A0\<close>, \<open>U+1680\<close>,
  \<open>U+2000\<close> to \<open>U+200A\<close>, \<open>U+202F\<close>, \<open>U+205F\<close>, \<open>U+3000\<close>).
\<close>

definition isStrWhiteSpace :: "16 word \<Rightarrow> bool" where
  "isStrWhiteSpace c =
     (c \<in> set [0x0009, 0x000A, 0x000B, 0x000C, 0x000D, 0x0020, 0x00A0, 0x1680,
               0x2000, 0x2001, 0x2002, 0x2003, 0x2004, 0x2005, 0x2006, 0x2007, 0x2008,
               0x2009, 0x200A, 0x2028, 0x2029, 0x202F, 0x205F, 0x3000, 0xFEFF])"

definition trimStart :: "jsstring \<Rightarrow> jsstring" where
  "trimStart s = dropWhile isStrWhiteSpace s"

definition trimString :: "jsstring \<Rightarrow> jsstring" where
  "trimString s = rev (trimStart (rev (trimStart s)))"

text \<open>
  \<^verbatim>\<open>parseInt(s)\<close> without a radix: leading white space and one sign are skipped, a
  \<^verbatim>\<open>0x\<close> prefix selects base 16, and the longest run of digits is read. No digit at
  all gives \<open>NaN\<close>; nothing is ever thrown. (A run of digits too long for a double,
  which the language reads as an infinity, is read here as the integer it spells.)
\<close>

definition parseInt :: "jsstring \<Rightarrow> jsnum" where
  "parseInt s =
     (let t = trimStart s;
          negative = (t \<noteq> [] \<and> hd t = cu CHR ''-'');
          u = (if t \<noteq> [] \<and> (hd t = cu CHR ''+'' \<or> hd t = cu CHR ''-'') then tl t else t);
          hex = (take 2 u = lit ''0x'' \<or> take 2 u = lit ''0X'');
          radix = (if hex then 16 else 10);
          v = (if hex then drop 2 u else u);
          z = takeWhile (isDigitIn radix) v
      in if z = [] then NaN
         else if negative then Fin (- of_nat (digitsValue radix z))
         else Fin (of_nat (digitsValue radix z)))"

text \<open>
  The conversion of a string to a number (\<^verbatim>\<open>StringToNumber\<close>), applied when a string
  is an operand of \<^verbatim>\<open>-\<close>: the whole trimmed string must be a numeric literal.
\<close>

definition nonDecimalLiteral :: "jsstring \<Rightarrow> nat option" where
  "nonDecimalLiteral t =
     (let radix = (if take 2 t = lit ''0x'' \<or> take 2 t = lit ''0X'' then 16
                   else if take 2 t = lit ''0o'' \<or> take 2 t = lit ''0O'' then 8
                   else if take 2 t = lit ''0b'' \<or> take 2 t = lit ''0B'' then 2
                   else 0);
          ds = drop 2 t
      in if radix \<noteq> 0 \<and> ds \<noteq> [] \<and> list_all (isDigitIn radix) ds
         then Some (digitsValue radix ds) else None)"

definition exponentPart :: "jsstring \<Rightarrow> int option" where
  "exponentPart r =
     (if r = [] then Some 0
      else if hd r = cu CHR ''e'' \<or> hd r = cu CHR ''E'' then
        (let r1 = tl r;
             negative = (r1 \<noteq> [] \<and> hd r1 = cu CHR ''-'');
             ds = (if r1 \<noteq> [] \<and> (hd r1 = cu CHR ''+'' \<or> hd r1 = cu CHR ''-'') then tl r1 else r1)
         in if ds \<noteq> [] \<and> list_all (isDigitIn 10) ds
            then Some (if negative then - int (digitsValue 10 ds) else int (digitsValue 10 ds))
            else None)
      else None)"

definition strUnsignedDecimalLiteral :: "jsstring \<Rightarrow> jsnum" where
  "strUnsignedDecimalLiteral u =
     (if u = lit ''Infinity'' then PInf
      else
        (let ip = takeWhile (isDigitIn 10) u;
             r1 = dropWhile (isDigitIn 10) u;
             dot = (r1 \<noteq> [] \<and> hd r1 = cu CHR ''.'');
             fp = (if dot then takeWhile (isDigitIn 10) (tl r1) else []);
             r2 = (if dot then dropWhile (isDigitIn 10) (tl r1) else r1)
         in if ip = [] \<and> fp = [] then NaN
            else (case exponentPart r2 of
                    None \<Rightarrow> NaN
                  | Some e \<Rightarrow>
                      Fin ((of_nat (digitsValue 10 ip)
                             + of_nat (digitsValue 10 fp) / 10 ^ length fp)
                           * (if 0 \<le> e then 10 ^ nat e else 1 / 10 ^ nat (- e))))))"

definition StringToNumber :: "jsstring \<Rightarrow> jsnum" where
  "StringToNumber s =
     (let t = trimString s
      in if t = [] then Fin 0
         else (case nonDecimalLiteral t of
                 Some n \<Rightarrow> Fin (of_nat n)
               | None \<Rightarrow>
                   if hd t = cu CHR ''+'' then strUnsignedDecimalLiteral (tl t)
                   else if hd t = cu CHR ''-'' then jneg (strUnsignedDecimalLiteral (tl t))
                   else strUnsignedDecimalLiteral t))"

subsection \<open>Objects, arrays and their conversion to a number\<close>

text \<open>
  The own member of an object under a key. An object is given by its members in the
  order of the stored text; of two members with the same key the later one counts.
\<close>

definition ownMember :: "(jsstring \<times> jsval) list \<Rightarrow> jsstring \<Rightarrow> jsval option" where
  "ownMember kvs k = map_of (rev kvs) k"

text \<open>
  Converting a stored value to a string throws in one situation. A stored object has
  data members only, so an own member called \<^verbatim>\<open>toString\<close> hides the inherited method
  with something that cannot be called; the inherited \<^verbatim>\<open>valueOf\<close> returns the object
  itself, and an own \<^verbatim>\<open>valueOf\<close> cannot be called either, so no primitive value is
  found and a \<^verbatim>\<open>TypeError\<close> is thrown. An array converts each element but
  \<^verbatim>\<open>undefined\<close> and \<^verbatim>\<open>null\<close> to a string and joins them, so it throws as soon as
  one of them does.
\<close>

fun toStringThrows :: "jsval \<Rightarrow> bool" where
  "toStringThrows (JObj kvs) = (ownMember kvs (lit ''toString'') \<noteq> None)"
| "toStringThrows (JArr xs) = list_ex toStringThrows xs"
| "toStringThrows v = False"

text \<open>
  The number read from the comma-joined string forms of the elements of an array, none
  of which throws: the empty array gives the empty string, two or more elements give a
  string with a comma in it, and a single element gives that element's own string form
  (empty for \<^verbatim>\<open>null\<close> and \<^verbatim>\<open>undefined\<close>, \<^verbatim>\<open>true\<close> or \<^verbatim>\<open>false\<close> for a truth
  value, \<^verbatim>\<open>[object Object]\<close> for an object), which for a number reads back as the
  number itself.
\<close>

fun joinedNumber :: "jsval list \<Rightarrow> jsnum" where
  "joinedNumber [] = Fin 0"
| "joinedNumber [JUndefined] = Fin 0"
| "joinedNumber [JNull] = Fin 0"
| "joinedNumber [JBool b] = NaN"
| "joinedNumber [JNum n] = n"
| "joinedNumber [JStr s] = StringToNumber s"
| "joinedNumber [JObj kvs] = NaN"
| "joinedNumber [JArr ys] = joinedNumber ys"
| "joinedNumber (x # y # zs) = NaN"

text \<open>
  \<^verbatim>\<open>ToNumber\<close>, applied to the right operand of \<^verbatim>\<open>-\<close>. An object or array is first
  converted to a primitive value, which is its string form or the \<^verbatim>\<open>TypeError\<close> above.
\<close>

fun ToNumber :: "jsval \<Rightarrow> exn + jsnum" where
  "ToNumber JUndefined = Inr NaN"
| "ToNumber JNull = Inr (Fin 0)"
| "ToNumber (JBool b) = Inr (if b then Fin 1 else Fin 0)"
| "ToNumber (JNum n) = Inr n"
| "ToNumber (JStr s) = Inr (StringToNumber s)"
| "ToNumber (JObj kvs) =
     (if toStringThrows (JObj kvs) then Inl (TypeError ''Cannot convert object to primitive value'')
      else Inr NaN)"
| "ToNumber (JArr xs) =
     (if toStringThrows (JArr xs) then Inl (TypeError ''Cannot convert object to primitive value'')
      else Inr (joinedNumber xs))"

text \<open>
  Reading the property \<^verbatim>\<open>lastNag\<close>: a \<^verbatim>\<open>TypeError\<close> on \<^verbatim>\<open>undefined\<close> and \<^verbatim>\<open>null\<close>, the
  stored member on an object, and \<^verbatim>\<open>undefined\<close> on every other value (no prototype
  defines a property of that name).
\<close>

fun lastNagOf :: "jsval \<Rightarrow> exn + jsval" where
  "lastNagOf JUndefined = Inl (TypeError ''Cannot read property lastNag of undefined'')"
| "lastNagOf JNull = Inl (TypeError ''Cannot read property lastNag of null'')"
| "lastNagOf (JObj kvs) =
     (case ownMember kvs (lit ''lastNag'') of None \<Rightarrow> Inr JUndefined | Some v \<Rightarrow> Inr v)"
| "lastNagOf v = Inr JUndefined"

subsection \<open>Printing numbers\<close>

fun showNat :: "nat \<Rightarrow> string" where
  "showNat n =
     (if n < 10 then [''0123456789'' ! n]
      else showNat (n div 10) @ [''0123456789'' ! (n mod 10)])"

declare showNat.simps [simp del]

definition showInt :: "int \<Rightarrow> string" where
  "showInt i = (if i < 0 then CHR ''-'' # showNat (nat (- i)) else showNat (nat i))"

text \<open>
  \<^verbatim>\<open>x.toFixed(0)\<close>: the nearest integer, a tie going away from zero (the exponent
  form used from \<open>10\<^sup>2\<^sup>1\<close> on is not modelled).
\<close>

fun toFixed0 :: "jsnum \<Rightarrow> string" where
  "toFixed0 NaN = ''NaN''"
| "toFixed0 PInf = ''Infinity''"
| "toFixed0 NInf = ''-Infinity''"
| "toFixed0 (Fin r) =
     (if r < 0 then CHR ''-'' # showNat (nat \<lfloor>- r + 1 / 2\<rfloor>)
      else showNat (nat \<lfloor>r + 1 / 2\<rfloor>))"

section \<open>The host: events, persistent state, and the outside world\<close>

text \<open>
  Every call into the editor, the logger, the error reporter and the process facility
  is recorded as an event, in call order.
\<close>

datatype event =
    InformationMessage string "string list"
  | ErrorMessage string
  | WithProgress string
  | ProgressReport jsnum string
  | LogInfo string
  | LogError string string
  | RollbarException string exn
  | Execute string "string list"
  | ExecuteCommand string

record host =
  globalState :: "string \<rightharpoonup> jsval"
  tmpFiles :: "string list"
  trace :: "event list"

definition emit :: "event \<Rightarrow> host \<Rightarrow> host" where
  "emit e h = h\<lparr>trace := trace h @ [e]\<rparr>"

text \<open>A promise is pending, or settled once: later calls of resolve and reject do nothing.\<close>

datatype 'a promise = Pending | Resolved 'a | Rejected exn

fun settle :: "'a promise \<Rightarrow> 'a promise \<Rightarrow> 'a promise" where
  "settle Pending q = q"
| "settle p q = p"

text \<open>
  How a call of an \<^verbatim>\<open>async\<close> function ends: with a value, with an exception (the
  returned promise rejects), or never, when it awaits a promise that stays pending.
\<close>

datatype outcome = Returned jsval | Threw exn | NeverReturns

text \<open>
  What arrives while the response is read: a chunk of so many bytes, the end of the
  stream, an error of the request, and the host signalling the cancellation token of
  the progress dialog.
\<close>

datatype netEvent = Data nat | End | RequestError exn | CancellationRequested

record response =
  statusCode :: int
  contentLength :: "jsstring option"
  body :: "netEvent list"

record execResult =
  retc :: int
  stderr :: string

text \<open>
  What the outside world answers during one run: the platform, the clock at the two
  places it is read, the user's answers, the result of looking up \<^verbatim>\<open>pkexec\<close>, of
  allocating the temporary file, of the HTTPS request, and of running the installer.
\<close>

record world =
  platform :: string
  timeAtCheck :: int
  timeAtAnswer :: int
  upgradeAnswer :: "string option"
  pkexec :: "string option"
  tmpFile :: "exn + string"
  requestSetup :: "exn option"
  request :: "exn + response"
  installerRun :: "execResult promise"
  restartAnswer :: "string option"

text \<open>
  The functions imported from modules that are not part of the sources at hand
  (\<^verbatim>\<open>versionLess\<close> and \<^verbatim>\<open>versionToString\<close> of \<^verbatim>\<open>@cmt/util\<close>, \<^verbatim>\<open>basename\<close> of
  \<^verbatim>\<open>path\<close>) are parameters. \<^verbatim>\<open>versionLess\<close> may throw.
\<close>

record 'v deps =
  versionLess :: "'v \<Rightarrow> string \<Rightarrow> exn + bool"
  versionToString :: "'v \<Rightarrow> string"
  basename :: "string \<Rightarrow> string \<Rightarrow> string"

record latestCMakeInfo =
  version :: string
  linuxURL :: string

record 'v upgradeOptions =
  currentVersion :: 'v
  available :: latestCMakeInfo

section \<open>The preference store\<close>

definition UPGRADE_PREFERENCE_KEY :: string where
  "UPGRADE_PREFERENCE_KEY = ''cmakeUpgradePreference.1''"

definition upgradePreference :: "host \<Rightarrow> jsval" where
  "upgradePreference h =
     (case globalState h UPGRADE_PREFERENCE_KEY of None \<Rightarrow> JUndefined | Some v \<Rightarrow> v)"

definition setUpgradePreference :: "jsval \<Rightarrow> host \<Rightarrow> host" where
  "setUpgradePreference v h =
     h\<lparr>globalState := (globalState h)(UPGRADE_PREFERENCE_KEY \<mapsto> v)\<rparr>"

text \<open>The record \<^verbatim>\<open>{lastNag: t}\<close> of a deferral at time \<open>t\<close>.\<close>

definition upgradeDelay :: "int \<Rightarrow> jsval" where
  "upgradeDelay t = JObj [(lit ''lastNag'', JNum (Fin (of_int t)))]"

section \<open>downloadFile\<close>

text \<open>
  The handlers of the response: \<^verbatim>\<open>data\<close> adds the chunk's length, and, when the total
  size is not zero, reports progress if the share received since the last report is
  above one percent; \<^verbatim>\<open>end\<close> logs and resolves with the path of the file; an
  \<^verbatim>\<open>error\<close> of the request rejects. The function has no parameter for a
  cancellation token (the caller's callback \<^verbatim>\<open>pr => downloadFile(url, ..., pr)\<close> drops
  the one the host passes) and registers no listener for it, so a cancellation request
  runs no code. The arguments after the event list are \<^verbatim>\<open>prevDownloaded\<close>,
  \<^verbatim>\<open>totalDownloaded\<close> and the promise; the result is the promise at the end and the
  events emitted, in order.
\<close>

fun receive ::
  "string \<Rightarrow> string \<Rightarrow> jsnum \<Rightarrow> netEvent list \<Rightarrow> nat \<Rightarrow> nat \<Rightarrow> string promise
     \<Rightarrow> string promise \<times> event list" where
  "receive url fpath totalSize [] prevDownloaded totalDownloaded p = (p, [])"
| "receive url fpath totalSize (Data len # es) prevDownloaded totalDownloaded p =
     (let totalDownloaded' = totalDownloaded + len
      in if totalSize \<noteq> Fin 0 then
           (let diffPercent =
                  jdiv (Fin (100 * (of_nat totalDownloaded' - of_nat prevDownloaded))) totalSize;
                totalPercent = jdiv (Fin (100 * of_nat totalDownloaded')) totalSize
            in if jgt diffPercent (Fin 1)
               then apsnd ((#) (ProgressReport diffPercent (toFixed0 totalPercent @ ''%'')))
                      (receive url fpath totalSize es totalDownloaded' totalDownloaded' p)
               else receive url fpath totalSize es prevDownloaded totalDownloaded' p)
         else receive url fpath totalSize es prevDownloaded totalDownloaded' p)"
| "receive url fpath totalSize (End # es) prevDownloaded totalDownloaded p =
     apsnd ((#) (LogInfo (''Downloaded '' @ url @ '' to '' @ fpath)))
       (receive url fpath totalSize es prevDownloaded totalDownloaded (settle p (Resolved fpath)))"
| "receive url fpath totalSize (RequestError e # es) prevDownloaded totalDownloaded p =
     receive url fpath totalSize es prevDownloaded totalDownloaded (settle p (Rejected e))"
| "receive url fpath totalSize (CancellationRequested # es) prevDownloaded totalDownloaded p =
     receive url fpath totalSize es prevDownloaded totalDownloaded p"

text \<open>
  The value of \<^verbatim>\<open>totalSize\<close>: \<^verbatim>\<open>parseInt(res.headers['content-length'] || '0')\<close>. A
  missing header and an empty one are falsy.
\<close>

definition totalSizeOf :: "jsstring option \<Rightarrow> jsnum" where
  "totalSizeOf header =
     parseInt (case header of None \<Rightarrow> lit ''0'' | Some s \<Rightarrow> if s = [] then lit ''0'' else s)"

definition downloadFile :: "string \<Rightarrow> world \<Rightarrow> host \<Rightarrow> string promise \<times> host" where
  "downloadFile url w h =
     (case tmpFile w of
        Inl err \<Rightarrow> (Rejected err, h)
      | Inr fpath \<Rightarrow>
          (let h1 = h\<lparr>tmpFiles := fpath # tmpFiles h\<rparr>
           in case requestSetup w of
                Some e \<Rightarrow> (Rejected e, h1)
              | None \<Rightarrow>
                  (case request w of
                     Inl e \<Rightarrow> (Rejected e, h1)
                   | Inr res \<Rightarrow>
                       if statusCode res \<noteq> 200
                       then (Rejected (Error ''Non-200 response when downloading new CMake installer''), h1)
                       else (let (p, evs) =
                                   receive url fpath (totalSizeOf (contentLength res)) (body res)
                                     0 0 Pending
                             in (p, h1\<lparr>trace := trace h1 @ evs\<rparr>)))))"

section \<open>installLinux\<close>

definition restartNow :: string where
  "restartNow = ''Restart Now''"

text \<open>The branch on the installer's exit code, lines 114 to 131.\<close>

definition reportInstall :: "execResult \<Rightarrow> world \<Rightarrow> host \<Rightarrow> host" where
  "reportInstall res w h =
     (if retc res = 127 then
        emit (ErrorMessage ''Failed to authorize for running the CMake installation.'') h
      else if retc res = 126 then
        emit (ErrorMessage
          ''You dismissed the request for permission to perform the CMake installation.'') h
      else if retc res \<noteq> 0 then
        emit (ErrorMessage
          ''The CMake installer exited with non-zero. Check the output panel for more information'')
          (emit (LogError (''The CMake installer returned non-zero ['' @ showInt (retc res) @ '']: '')
                   (stderr res)) h)
      else
        (let h1 = emit (InformationMessage
                    ''The new CMake is successfull installed to /usr/local/bin/cmake. Reload VSCode to complete changes.''
                    [restartNow]) h
         in if restartAnswer w = Some restartNow
            then emit (ExecuteCommand ''workbench.action.reloadWindow'') h1
            else h1))"

definition installLinux :: "'v deps \<Rightarrow> string \<Rightarrow> world \<Rightarrow> host \<Rightarrow> outcome \<times> host" where
  "installLinux lib url w h =
     (case pkexec w of
        None \<Rightarrow>
          (Returned JUndefined,
           emit (ErrorMessage ''CMake Tools needs `pkexec` program to run the CMake installer'') h)
      | Some pk \<Rightarrow>
          (let filename = basename lib url ''.sh'';
               (p, h1) = downloadFile url w (emit (WithProgress (''Downloading '' @ filename)) h)
           in case p of
                Pending \<Rightarrow> (NeverReturns, h1)
              | Rejected e \<Rightarrow> (Threw e, h1)
              | Resolved installerPath \<Rightarrow>
                  (let h2 = emit (Execute pk [installerPath, ''--exclude-subdir'', ''--prefix=/usr/local''])
                              (emit (WithProgress ''Running CMake Installer'') h1)
                   in case installerRun w of
                        Pending \<Rightarrow> (NeverReturns, h2)
                      | Rejected e \<Rightarrow> (Threw e, h2)
                      | Resolved res \<Rightarrow> (Returned JUndefined, reportInstall res w h2))))"

section \<open>maybeUpgradeCMake\<close>

definition doTheUpgrade :: string where
  "doTheUpgrade = ''Yes''"

definition askMeLater :: string where
  "askMeLater = ''Ask me Later''"

definition dontAskAgain :: string where
  "dontAskAgain = ''Don't Ask Me Again''"

definition upgradeQuestion :: "'v deps \<Rightarrow> 'v upgradeOptions \<Rightarrow> string" where
  "upgradeQuestion lib opt =
     ''There is a new version of CMake available. You are running ''
       @ versionToString lib (currentVersion opt) @ '', and '' @ version (available opt)
       @ '' is available. ''
       @ ''Would you like CMake Tools to download and install this update automatically?''"

text \<open>The function from the comment \<^verbatim>\<open>Check for an upgrade\<close> on, lines 152 to 205.\<close>

definition checkForUpgrade ::
  "'v deps \<Rightarrow> 'v upgradeOptions \<Rightarrow> world \<Rightarrow> host \<Rightarrow> outcome \<times> host" where
  "checkForUpgrade lib opt w h =
     (case versionLess lib (currentVersion opt) (version (available opt)) of
        Inl e \<Rightarrow>
          (Returned JNull,
           case e of
             InvalidVersionString m \<Rightarrow> h
           | _ \<Rightarrow> emit (RollbarException ''Error comparing CMake versions for potential upgrade'' e) h)
      | Inr upgradeAvailable \<Rightarrow>
          if \<not> upgradeAvailable then (Returned JUndefined, h)
          else
            (let h1 = emit (InformationMessage (upgradeQuestion lib opt)
                              [doTheUpgrade, askMeLater, dontAskAgain]) h
             in case upgradeAnswer w of
                  None \<Rightarrow> (Returned JUndefined, h1)
                | Some chosen \<Rightarrow>
                    if chosen = dontAskAgain
                    then (Returned JUndefined, setUpgradePreference (JStr (lit ''never'')) h1)
                    else if chosen = askMeLater
                    then (Returned JUndefined,
                          setUpgradePreference
                            (JObj [(lit ''lastNag'', JNum (Fin (of_int (timeAtAnswer w))))]) h1)
                    else if platform w = ''linux''
                    then installLinux lib (linuxURL (available opt)) w h1
                    else (Returned JUndefined, h1)))"

text \<open>
  The test on the stored preference, lines 141 to 151: \<open>Inr True\<close> when the function
  returns there, \<open>Inr False\<close> when it goes on, \<open>Inl\<close> when reading the property or
  the subtraction throws. Neither is inside a \<^verbatim>\<open>try\<close>, so the exception leaves the
  function.
\<close>

definition preferenceSaysWait :: "jsval \<Rightarrow> int \<Rightarrow> exn + bool" where
  "preferenceSaysWait pref now =
     (if pref = JStr (lit ''never'') then Inr True
      else if truthy pref then
        (case lastNagOf pref of
           Inl e \<Rightarrow> Inl e
         | Inr lastNag \<Rightarrow>
             (case ToNumber lastNag of
                Inl e \<Rightarrow> Inl e
              | Inr n \<Rightarrow>
                  (let timeSinceNag = jsub (Fin (of_int now)) n
                   in if jlt timeSinceNag (Fin (1000 * 60 * 60 * 48)) then Inr True
                      else Inr False)))
      else Inr False)"

definition maybeUpgradeCMake ::
  "'v deps \<Rightarrow> 'v upgradeOptions \<Rightarrow> world \<Rightarrow> host \<Rightarrow> outcome \<times> host" where
  "maybeUpgradeCMake lib opt w h =
     (if platform w \<noteq> ''linux'' then (Returned JUndefined, h)
      else case preferenceSaysWait (upgradePreference h) (timeAtCheck w) of
             Inl e \<Rightarrow> (Threw e, h)
           | Inr True \<Rightarrow> (Returned JUndefined, h)
           | Inr False \<Rightarrow> checkForUpgrade lib opt w h)"

text \<open>Successive invocations, each on the host the previous one left.\<close>

fun runs :: "'v deps \<Rightarrow> ('v upgradeOptions \<times> world) list \<Rightarrow> host \<Rightarrow> host" where
  "runs lib [] h = h"
| "runs lib ((opt, w) # rs) h = runs lib rs (snd (maybeUpgradeCMake lib opt w h))"

section \<open>The progress policy in the specification's words\<close>

text \<open>
  Emit an update only when the delta since the last reported point exceeds one percent
  of the expected total: for a declared total of \<open>n\<close> bytes, the points at which an update is
  due, each with the bytes received since the last reported point and the bytes
  received in all. The arguments are the last reported point and the bytes so far.
\<close>

fun policyReports :: "nat \<Rightarrow> nat \<Rightarrow> nat \<Rightarrow> nat list \<Rightarrow> (nat \<times> nat) list" where
  "policyReports n lastReported received [] = []"
| "policyReports n lastReported received (len # lens) =
     (if n < 100 * (received + len - lastReported)
      then (received + len - lastReported, received + len)
             # policyReports n (received + len) (received + len) lens
      else policyReports n lastReported (received + len) lens)"

definition reportOf :: "nat \<Rightarrow> nat \<times> nat \<Rightarrow> event" where
  "reportOf n dc =
     ProgressReport (Fin (100 * of_nat (fst dc) / of_nat n))
       (toFixed0 (Fin (100 * of_nat (snd dc) / of_nat n)) @ ''%'')"


fun isCancellation :: "netEvent \<Rightarrow> bool" where
  "isCancellation CancellationRequested = True"
| "isCancellation _ = False"

section \<open>Sample inputs\<close>

definition sampleLib :: "string deps" where
  "sampleLib = \<lparr>versionLess = (\<lambda>a b. Inr True), versionToString = (\<lambda>v. v),
                 basename = (\<lambda>p ext. ''cmake-3.19.2-Linux-x86_64'')\<rparr>"

definition failingLib :: "string deps" where
  "failingLib = \<lparr>versionLess = (\<lambda>a b. Inl (InvalidVersionString b)), versionToString = (\<lambda>v. v),
                  basename = (\<lambda>p ext. ''cmake-3.19.2-Linux-x86_64'')\<rparr>"

definition sampleOpt :: "string upgradeOptions" where
  "sampleOpt = \<lparr>currentVersion = ''3.10.0'',
                 available = \<lparr>version = ''3.19.2'',
                              linuxURL = ''https://cmake.org/files/cmake-3.19.2-Linux-x86_64.sh''\<rparr>\<rparr>"

definition sampleHost :: "jsval option \<Rightarrow> host" where
  "sampleHost stored =
     \<lparr>globalState = Map.empty(UPGRADE_PREFERENCE_KEY := stored), tmpFiles = [], trace = []\<rparr>"

definition sampleResponse :: "jsstring option \<Rightarrow> netEvent list \<Rightarrow> response" where
  "sampleResponse header events = \<lparr>statusCode = 200, contentLength = header, body = events\<rparr>"

definition sampleWorld :: "int \<Rightarrow> string option \<Rightarrow> response \<Rightarrow> int \<Rightarrow> world" where
  "sampleWorld now answer res code =
     \<lparr>platform = ''linux'', timeAtCheck = now, timeAtAnswer = now + 5000,
      upgradeAnswer = answer, pkexec = Some ''/usr/bin/pkexec'',
      tmpFile = Inr ''/tmp/cmake-3.19.2-Linux-x86_64-1234.sh'', requestSetup = None,
      request = Inr res, installerRun = Resolved \<lparr>retc = code, stderr = ''E''\<rparr>,
      restartAnswer = None\<rparr>"

section \<open>Auxiliary facts\<close>

lemma floor_rat_numeral: "\<lfloor>(numeral a / numeral b :: rat)\<rfloor> = numeral a div numeral b"
  using floor_divide_of_int_eq [of "numeral a" "numeral b", where ?'a = rat] by simp

lemma hexDigit_table:
  "hexDigit c = map_of
     [(0x30, 0), (0x31, 1), (0x32, 2), (0x33, 3), (0x34, 4),
      (0x35, 5), (0x36, 6), (0x37, 7), (0x38, 8), (0x39, 9),
      (0x61, 10), (0x62, 11), (0x63, 12), (0x64, 13), (0x65, 14),
      (0x66, 15), (0x41, 10), (0x42, 11), (0x43, 12), (0x44, 13),
      (0x45, 14), (0x46, 15)] c"
  by (simp add: hexDigit_def lit_def cu_def upt_rec)

lemmas parseInt_defs =
  parseInt_def trimStart_def isStrWhiteSpace_def isDigitIn_def digitIn_def hexDigit_table
  digitsValue_def lit_def cu_def

lemmas StringToNumber_defs =
  StringToNumber_def trimString_def trimStart_def isStrWhiteSpace_def nonDecimalLiteral_def
  strUnsignedDecimalLiteral_def isDigitIn_def digitIn_def hexDigit_table digitsValue_def
  exponentPart_def lit_def cu_def

lemma preferenceSaysWait_never: "preferenceSaysWait (JStr (lit ''never'')) now = Inr True"
  by (simp add: preferenceSaysWait_def)

lemma preferenceSaysWait_upgradeDelay:
  "preferenceSaysWait (upgradeDelay t) now = Inr (now - t < 1000 * 60 * 60 * 48)"
proof -
  have "(of_int now - of_int t < (172800000::rat)) = (now - t < 172800000)"
    by (simp only: of_int_diff [symmetric] of_int_less_numeral_iff)
  then show ?thesis
    by (simp add: preferenceSaysWait_def upgradeDelay_def ownMember_def)
qed

lemma trace_emit: "trace (emit e h) = trace h @ [e]"
  by (simp add: emit_def)

lemma globalState_emit: "globalState (emit e h) = globalState h"
  by (simp add: emit_def)

lemma upgradePreference_stored:
  "globalState h UPGRADE_PREFERENCE_KEY = Some v \<Longrightarrow> upgradePreference h = v"
  by (simp add: upgradePreference_def)

lemma globalState_downloadFile: "globalState (snd (downloadFile url w h)) = globalState h"
  by (simp add: downloadFile_def Let_def split: sum.splits option.splits prod.splits)

lemma globalState_reportInstall: "globalState (reportInstall res w h) = globalState h"
  by (simp add: reportInstall_def Let_def globalState_emit)

lemma globalState_installLinux: "globalState (snd (installLinux lib url w h)) = globalState h"
proof (cases "pkexec w")
  case None
  then show ?thesis by (simp add: installLinux_def globalState_emit)
next
  case (Some pk)
  let ?h0 = "emit (WithProgress (''Downloading '' @ basename lib url ''.sh'')) h"
  obtain p h1 where d: "downloadFile url w ?h0 = (p, h1)"
    by (cases "downloadFile url w ?h0")
  from globalState_downloadFile [of url w ?h0] d
  have "globalState h1 = globalState h" by (simp add: globalState_emit)
  with Some d show ?thesis
    by (simp add: installLinux_def Let_def globalState_emit globalState_reportInstall
        split: promise.splits)
qed

lemma stored_never_returns:
  "globalState h UPGRADE_PREFERENCE_KEY = Some (JStr (lit ''never''))
     \<Longrightarrow> maybeUpgradeCMake lib opt w h = (Returned JUndefined, h)"
  by (simp add: maybeUpgradeCMake_def upgradePreference_stored preferenceSaysWait_never)

lemma stored_never_runs:
  "globalState h UPGRADE_PREFERENCE_KEY = Some (JStr (lit ''never'')) \<Longrightarrow> runs lib rs h = h"
  by (induction rs) (auto simp: stored_never_returns)

lemma chosen_never_is_stored:
  assumes "platform w = ''linux''"
    and "preferenceSaysWait (upgradePreference h) (timeAtCheck w) = Inr False"
    and "versionLess lib (currentVersion opt) (version (available opt)) = Inr True"
    and "upgradeAnswer w = Some dontAskAgain"
  shows "globalState (snd (maybeUpgradeCMake lib opt w h)) UPGRADE_PREFERENCE_KEY
           = Some (JStr (lit ''never''))"
  using assms
  by (simp add: maybeUpgradeCMake_def checkForUpgrade_def Let_def setUpgradePreference_def
      globalState_emit)

section \<open>The preference gate\<close>

text \<open>
  Claim C1. With a stored preference of the shape \<open>{lastNag: t}\<close>, on the supported
  platform, the function returns at the preference test, leaving the host untouched and
  never reaching the version comparison or the prompt, exactly when fewer than 48 hours
  (172800000 ms) have passed since \<open>t\<close>; otherwise it goes on with the version
  comparison and the prompt.
\<close>

theorem deferred_gate:
  assumes "platform w = ''linux''"
    and "globalState h UPGRADE_PREFERENCE_KEY = Some (upgradeDelay t)"
  shows "maybeUpgradeCMake lib opt w h =
           (if timeAtCheck w - t < 48 * 60 * 60 * 1000 then (Returned JUndefined, h)
            else checkForUpgrade lib opt w h)"
  using assms
  by (simp add: maybeUpgradeCMake_def upgradePreference_stored preferenceSaysWait_upgradeDelay)

theorem deferred_gate_witness:
  "maybeUpgradeCMake sampleLib sampleOpt
      (sampleWorld (1700000000000 + 47 * 3600000) None (sampleResponse None []) 0)
      (sampleHost (Some (upgradeDelay 1700000000000)))
     = (Returned JUndefined, sampleHost (Some (upgradeDelay 1700000000000)))
   \<and> maybeUpgradeCMake sampleLib sampleOpt
      (sampleWorld (1700000000000 + 49 * 3600000) None (sampleResponse None []) 0)
      (sampleHost (Some (upgradeDelay 1700000000000)))
     = (Returned JUndefined,
        emit (InformationMessage (upgradeQuestion sampleLib sampleOpt)
               [doTheUpgrade, askMeLater, dontAskAgain])
          (sampleHost (Some (upgradeDelay 1700000000000))))"
  using deferred_gate [of "sampleWorld (1700000000000 + 47 * 3600000) None (sampleResponse None []) 0"
      "sampleHost (Some (upgradeDelay 1700000000000))" 1700000000000 sampleLib sampleOpt]
    deferred_gate [of "sampleWorld (1700000000000 + 49 * 3600000) None (sampleResponse None []) 0"
      "sampleHost (Some (upgradeDelay 1700000000000))" 1700000000000 sampleLib sampleOpt]
  by (simp add: sampleWorld_def sampleHost_def checkForUpgrade_def sampleLib_def)

text \<open>
  Claim C7. Once the stored preference is \<open>never\<close>, an invocation returns at once,
  whatever the clock, the versions and the platform, with no event and no change of the
  host; so does any sequence of invocations. Choosing \<open>Don't Ask Me Again\<close> at the
  prompt stores that value, after which every sequence of invocations leaves the host
  as it is.
\<close>

theorem never_blocks:
  "(globalState h UPGRADE_PREFERENCE_KEY = Some (JStr (lit ''never'')) \<longrightarrow>
      maybeUpgradeCMake lib opt w h = (Returned JUndefined, h) \<and> runs lib rs h = h)
   \<and> (platform w = ''linux''
        \<and> preferenceSaysWait (upgradePreference h) (timeAtCheck w) = Inr False
        \<and> versionLess lib (currentVersion opt) (version (available opt)) = Inr True
        \<and> upgradeAnswer w = Some dontAskAgain \<longrightarrow>
      runs lib rs (snd (maybeUpgradeCMake lib opt w h)) = snd (maybeUpgradeCMake lib opt w h))"
  using stored_never_returns stored_never_runs chosen_never_is_stored by blast

theorem never_blocks_witness:
  "maybeUpgradeCMake sampleLib sampleOpt
      (sampleWorld 1700000000000 (Some doTheUpgrade) (sampleResponse None []) 0)
      (sampleHost (Some (JStr (lit ''never''))))
     = (Returned JUndefined, sampleHost (Some (JStr (lit ''never''))))
   \<and> runs sampleLib
        [(sampleOpt, sampleWorld 1700000000000 None (sampleResponse None []) 0),
         (sampleOpt, sampleWorld 9900000000000 None (sampleResponse None []) 0)]
        (sampleHost (Some (JStr (lit ''never''))))
     = sampleHost (Some (JStr (lit ''never'')))
   \<and> runs sampleLib
        [(sampleOpt, sampleWorld 1700000000000 (Some dontAskAgain) (sampleResponse None []) 0),
         (sampleOpt, sampleWorld 9900000000000 None (sampleResponse None []) 0)]
        (sampleHost None)
     = snd (maybeUpgradeCMake sampleLib sampleOpt
              (sampleWorld 1700000000000 (Some dontAskAgain) (sampleResponse None []) 0)
              (sampleHost None))"
  using never_blocks [of "sampleHost (Some (JStr (lit ''never'')))" sampleLib sampleOpt
      "sampleWorld 1700000000000 (Some doTheUpgrade) (sampleResponse None []) 0"
      "[(sampleOpt, sampleWorld 1700000000000 None (sampleResponse None []) 0),
        (sampleOpt, sampleWorld 9900000000000 None (sampleResponse None []) 0)]"]
    never_blocks [of "sampleHost None" sampleLib sampleOpt
      "sampleWorld 1700000000000 (Some dontAskAgain) (sampleResponse None []) 0"
      "[(sampleOpt, sampleWorld 9900000000000 None (sampleResponse None []) 0)]"]
  by (simp add: sampleHost_def sampleWorld_def sampleLib_def upgradePreference_def
      preferenceSaysWait_def)

text \<open>
  Claim C10. With a stored \<open>{lastNag: t}\<close> whose time stamp lies after the current time,
  an invocation returns at the preference test without any event or change of the host,
  and so does every sequence of invocations made before \<open>t\<close>: the record stays, and
  suppresses the prompt for as long as the clock has not passed it.
\<close>

theorem future_timestamp_suppresses:
  assumes "globalState h UPGRADE_PREFERENCE_KEY = Some (upgradeDelay t)"
    and "\<forall>r \<in> set rs. timeAtCheck (snd r) < t"
  shows "(\<forall>r \<in> set rs. maybeUpgradeCMake lib (fst r) (snd r) h = (Returned JUndefined, h))
         \<and> runs lib rs h = h"
proof -
  have one: "maybeUpgradeCMake lib opt w h = (Returned JUndefined, h)"
    if "timeAtCheck w < t" for opt w
    using assms(1) that
    by (simp add: maybeUpgradeCMake_def upgradePreference_stored preferenceSaysWait_upgradeDelay)
  from assms(2) have "runs lib rs h = h"
    by (induction rs) (auto simp: one)
  with one assms(2) show ?thesis by auto
qed

theorem future_timestamp_suppresses_witness:
  "runs sampleLib
     [(sampleOpt, sampleWorld 1700000000000 (Some doTheUpgrade) (sampleResponse None []) 0),
      (sampleOpt, sampleWorld 4000000000000 (Some doTheUpgrade) (sampleResponse None []) 0)]
     (sampleHost (Some (upgradeDelay 4102444800000)))
   = sampleHost (Some (upgradeDelay 4102444800000))"
  using future_timestamp_suppresses [of "sampleHost (Some (upgradeDelay 4102444800000))"
      4102444800000
      "[(sampleOpt, sampleWorld 1700000000000 (Some doTheUpgrade) (sampleResponse None []) 0),
        (sampleOpt, sampleWorld 4000000000000 (Some doTheUpgrade) (sampleResponse None []) 0)]"
      sampleLib]
  by (simp add: sampleHost_def sampleWorld_def)

section \<open>The version comparison\<close>

text \<open>
  Claim C4, as the code has it. When the comparison throws, the exception is caught and
  the function returns \<open>null\<close> without prompting. An \<open>InvalidVersionString\<close> is
  not reported anywhere: the host is left exactly as it was. Every other exception is
  reported to the error sink, once, and nothing else happens.
\<close>

theorem comparison_failure_is_silent:
  assumes "platform w = ''linux''"
    and "preferenceSaysWait (upgradePreference h) (timeAtCheck w) = Inr False"
    and "versionLess lib (currentVersion opt) (version (available opt)) = Inl e"
  shows "((\<exists>m. e = InvalidVersionString m) \<longrightarrow>
            maybeUpgradeCMake lib opt w h = (Returned JNull, h))
         \<and> ((\<forall>m. e \<noteq> InvalidVersionString m) \<longrightarrow>
            maybeUpgradeCMake lib opt w h =
              (Returned JNull,
               emit (RollbarException ''Error comparing CMake versions for potential upgrade'' e) h))"
  using assms
  by (cases e) (simp_all add: maybeUpgradeCMake_def checkForUpgrade_def)

theorem comparison_failure_is_silent_witness:
  "maybeUpgradeCMake failingLib sampleOpt
     (sampleWorld 1700000000000 (Some doTheUpgrade) (sampleResponse None []) 0) (sampleHost None)
   = (Returned JNull, sampleHost None)
   \<and> maybeUpgradeCMake (failingLib\<lparr>versionLess := \<lambda>a b. Inl (Error ''boom'')\<rparr>) sampleOpt
     (sampleWorld 1700000000000 (Some doTheUpgrade) (sampleResponse None []) 0) (sampleHost None)
   = (Returned JNull,
      emit (RollbarException ''Error comparing CMake versions for potential upgrade''
              (Error ''boom'')) (sampleHost None))"
  using comparison_failure_is_silent [of
      "sampleWorld 1700000000000 (Some doTheUpgrade) (sampleResponse None []) 0"
      "sampleHost None" failingLib sampleOpt "InvalidVersionString ''3.19.2''"]
    comparison_failure_is_silent [of
      "sampleWorld 1700000000000 (Some doTheUpgrade) (sampleResponse None []) 0"
      "sampleHost None" "failingLib\<lparr>versionLess := \<lambda>a b. Inl (Error ''boom'')\<rparr>" sampleOpt
      "Error ''boom''"]
  by (simp add: sampleWorld_def sampleHost_def failingLib_def sampleOpt_def
      upgradePreference_def preferenceSaysWait_def)

text \<open>
  Claim C4 as the specification words it fails: a run in which the comparison throws
  \<open>InvalidVersionString\<close> ends with an empty trace, so nothing has reached the error
  sink.
\<close>

theorem parse_failure_not_reported:
  "trace (snd (maybeUpgradeCMake failingLib sampleOpt
     (sampleWorld 1700000000000 (Some doTheUpgrade) (sampleResponse None []) 0)
     (sampleHost None))) = []
   \<and> versionLess failingLib (currentVersion sampleOpt) (version (available sampleOpt))
       = Inl (InvalidVersionString ''3.19.2'')"
  by (simp add: maybeUpgradeCMake_def checkForUpgrade_def sampleWorld_def sampleHost_def
      failingLib_def sampleOpt_def upgradePreference_def preferenceSaysWait_def)

section \<open>Writes to the preference store\<close>

text \<open>
  Claim C6. The global state after an invocation is the one before it, except in two
  cases, both after the prompt has been shown: the answer \<open>Don't Ask Me Again\<close> stores
  \<open>never\<close>, and the answer \<open>Ask me Later\<close> stores \<open>{lastNag: now}\<close>. On every other
  path (no answer, a failed download, a failed installation, an installer that never
  returns) the store is unchanged.
\<close>

theorem preference_written_only_on_choice:
  "globalState (snd (maybeUpgradeCMake lib opt w h)) =
     (if platform w = ''linux''
         \<and> preferenceSaysWait (upgradePreference h) (timeAtCheck w) = Inr False
         \<and> versionLess lib (currentVersion opt) (version (available opt)) = Inr True
         \<and> upgradeAnswer w = Some dontAskAgain
      then (globalState h)(UPGRADE_PREFERENCE_KEY \<mapsto> JStr (lit ''never''))
      else if platform w = ''linux''
         \<and> preferenceSaysWait (upgradePreference h) (timeAtCheck w) = Inr False
         \<and> versionLess lib (currentVersion opt) (version (available opt)) = Inr True
         \<and> upgradeAnswer w = Some askMeLater
      then (globalState h)(UPGRADE_PREFERENCE_KEY \<mapsto> upgradeDelay (timeAtAnswer w))
      else globalState h)
   \<and> (globalState (snd (maybeUpgradeCMake lib opt w h)) \<noteq> globalState h \<longrightarrow>
        upgradeAnswer w = Some askMeLater \<or> upgradeAnswer w = Some dontAskAgain)"
proof -
  have eq: "globalState (snd (maybeUpgradeCMake lib opt w h)) =
     (if platform w = ''linux''
         \<and> preferenceSaysWait (upgradePreference h) (timeAtCheck w) = Inr False
         \<and> versionLess lib (currentVersion opt) (version (available opt)) = Inr True
         \<and> upgradeAnswer w = Some dontAskAgain
      then (globalState h)(UPGRADE_PREFERENCE_KEY \<mapsto> JStr (lit ''never''))
      else if platform w = ''linux''
         \<and> preferenceSaysWait (upgradePreference h) (timeAtCheck w) = Inr False
         \<and> versionLess lib (currentVersion opt) (version (available opt)) = Inr True
         \<and> upgradeAnswer w = Some askMeLater
      then (globalState h)(UPGRADE_PREFERENCE_KEY \<mapsto> upgradeDelay (timeAtAnswer w))
      else globalState h)"
    by (simp add: maybeUpgradeCMake_def checkForUpgrade_def Let_def setUpgradePreference_def
        globalState_emit globalState_installLinux upgradeDelay_def askMeLater_def
        dontAskAgain_def
        split: sum.splits bool.splits option.splits exn.splits)
  then show ?thesis
    by (auto split: if_splits)
qed

theorem preference_written_only_on_choice_witness:
  "globalState (snd (maybeUpgradeCMake sampleLib sampleOpt
      (sampleWorld 1700000000000 (Some askMeLater) (sampleResponse None []) 0) (sampleHost None)))
     = [UPGRADE_PREFERENCE_KEY \<mapsto> upgradeDelay 1700000005000]
   \<and> globalState (snd (maybeUpgradeCMake sampleLib sampleOpt
      (sampleWorld 1700000000000 None (sampleResponse None []) 0) (sampleHost None)))
     = globalState (sampleHost None)
   \<and> globalState (snd (maybeUpgradeCMake sampleLib sampleOpt
      (sampleWorld 1700000000000 (Some doTheUpgrade) (sampleResponse None [RequestError (Error ''reset'')]) 0)
      (sampleHost None)))
     = globalState (sampleHost None)
   \<and> globalState (snd (maybeUpgradeCMake sampleLib sampleOpt
      (sampleWorld 1700000000000 (Some doTheUpgrade) (sampleResponse None [End]) 1) (sampleHost None)))
     = globalState (sampleHost None)"
  using preference_written_only_on_choice [of sampleLib sampleOpt
      "sampleWorld 1700000000000 (Some askMeLater) (sampleResponse None []) 0" "sampleHost None"]
    preference_written_only_on_choice [of sampleLib sampleOpt
      "sampleWorld 1700000000000 None (sampleResponse None []) 0" "sampleHost None"]
    preference_written_only_on_choice [of sampleLib sampleOpt
      "sampleWorld 1700000000000 (Some doTheUpgrade) (sampleResponse None [RequestError (Error ''reset'')]) 0"
      "sampleHost None"]
    preference_written_only_on_choice [of sampleLib sampleOpt
      "sampleWorld 1700000000000 (Some doTheUpgrade) (sampleResponse None [End]) 1" "sampleHost None"]
  by (simp add: sampleWorld_def sampleHost_def sampleLib_def sampleOpt_def
      upgradePreference_def preferenceSaysWait_def askMeLater_def dontAskAgain_def
      doTheUpgrade_def)

section \<open>The installer's exit code\<close>

text \<open>
  Claim C2. When \<^verbatim>\<open>pkexec\<close> is found, the download resolves and the installer exits,
  \<^verbatim>\<open>installLinux\<close> returns after reporting the exit code: 127 shows the message about the
  failed authorization, 126 the message about the dismissed request, any other code
  but 0 logs the code with the captured standard error and shows the generic message,
  and 0 shows the success message with the action \<open>Restart Now\<close>, reloading the window
  if the user picks it. The four reports differ from one another.
\<close>

theorem installer_exit_codes:
  assumes "pkexec w = Some pk"
    and "downloadFile url w (emit (WithProgress (''Downloading '' @ basename lib url ''.sh'')) h)
           = (Resolved installerPath, h1)"
    and "installerRun w = Resolved res"
    and "h2 = emit (Execute pk [installerPath, ''--exclude-subdir'', ''--prefix=/usr/local''])
                (emit (WithProgress ''Running CMake Installer'') h1)"
  shows "installLinux lib url w h = (Returned JUndefined, reportInstall res w h2)
    \<and> (retc res = 127 \<longrightarrow>
         trace (reportInstall res w h2) = trace h2 @
           [ErrorMessage ''Failed to authorize for running the CMake installation.''])
    \<and> (retc res = 126 \<longrightarrow>
         trace (reportInstall res w h2) = trace h2 @
           [ErrorMessage
              ''You dismissed the request for permission to perform the CMake installation.''])
    \<and> (retc res \<notin> {0, 126, 127} \<longrightarrow>
         trace (reportInstall res w h2) = trace h2 @
           [LogError (''The CMake installer returned non-zero ['' @ showInt (retc res) @ '']: '')
              (stderr res),
            ErrorMessage
              ''The CMake installer exited with non-zero. Check the output panel for more information''])
    \<and> (retc res = 0 \<longrightarrow>
         trace (reportInstall res w h2) = trace h2 @
           InformationMessage
             ''The new CMake is successfull installed to /usr/local/bin/cmake. Reload VSCode to complete changes.''
             [''Restart Now'']
           # (if restartAnswer w = Some ''Restart Now''
              then [ExecuteCommand ''workbench.action.reloadWindow''] else []))
    \<and> (retc a = 127 \<and> retc b = 126 \<and> retc c \<notin> {0, 126, 127} \<and> retc d = 0 \<longrightarrow>
         distinct [trace (reportInstall a w h2), trace (reportInstall b w h2),
                   trace (reportInstall c w h2), trace (reportInstall d w h2)])"
proof -
  have run: "installLinux lib url w h = (Returned JUndefined, reportInstall res w h2)"
    using assms by (simp add: installLinux_def Let_def)
  have codes: "retc a = 127 \<and> retc b = 126 \<and> retc c \<notin> {0, 126, 127} \<and> retc d = 0 \<longrightarrow>
         distinct [trace (reportInstall a w h2), trace (reportInstall b w h2),
                   trace (reportInstall c w h2), trace (reportInstall d w h2)]"
    by (simp add: reportInstall_def Let_def trace_emit)
  show ?thesis
    by (intro conjI run codes) (simp_all add: reportInstall_def Let_def trace_emit restartNow_def)
qed

theorem installer_exit_codes_witness:
  "trace (snd (installLinux sampleLib ''u''
      (sampleWorld 0 None (sampleResponse None [End]) 127) (sampleHost None)))
   = [WithProgress ''Downloading cmake-3.19.2-Linux-x86_64'',
      LogInfo ''Downloaded u to /tmp/cmake-3.19.2-Linux-x86_64-1234.sh'',
      WithProgress ''Running CMake Installer'',
      Execute ''/usr/bin/pkexec''
        [''/tmp/cmake-3.19.2-Linux-x86_64-1234.sh'', ''--exclude-subdir'', ''--prefix=/usr/local''],
      ErrorMessage ''Failed to authorize for running the CMake installation.'']
   \<and> trace (snd (installLinux sampleLib ''u''
      (sampleWorld 0 None (sampleResponse None [End]) 2) (sampleHost None)))
   = [WithProgress ''Downloading cmake-3.19.2-Linux-x86_64'',
      LogInfo ''Downloaded u to /tmp/cmake-3.19.2-Linux-x86_64-1234.sh'',
      WithProgress ''Running CMake Installer'',
      Execute ''/usr/bin/pkexec''
        [''/tmp/cmake-3.19.2-Linux-x86_64-1234.sh'', ''--exclude-subdir'', ''--prefix=/usr/local''],
      LogError ''The CMake installer returned non-zero [2]: '' ''E'',
      ErrorMessage
        ''The CMake installer exited with non-zero. Check the output panel for more information'']"
proof -
  let ?h1 = "\<lparr>globalState = Map.empty(UPGRADE_PREFERENCE_KEY := None),
             tmpFiles = [''/tmp/cmake-3.19.2-Linux-x86_64-1234.sh''],
             trace = [WithProgress ''Downloading cmake-3.19.2-Linux-x86_64'',
                      LogInfo ''Downloaded u to /tmp/cmake-3.19.2-Linux-x86_64-1234.sh'']\<rparr>"
  have d: "downloadFile ''u'' (sampleWorld 0 None (sampleResponse None [End]) code)
             (emit (WithProgress (''Downloading '' @ basename sampleLib ''u'' ''.sh'')) (sampleHost None))
           = (Resolved ''/tmp/cmake-3.19.2-Linux-x86_64-1234.sh'', ?h1)" for code
    by (simp add: downloadFile_def sampleWorld_def sampleResponse_def sampleHost_def
        sampleLib_def emit_def totalSizeOf_def parseInt_defs)
  have p: "pkexec (sampleWorld 0 None (sampleResponse None [End]) code) = Some ''/usr/bin/pkexec''"
    and r: "installerRun (sampleWorld 0 None (sampleResponse None [End]) code)
            = Resolved \<lparr>retc = code, stderr = ''E''\<rparr>" for code
    by (simp_all add: sampleWorld_def)
  from installer_exit_codes [OF p d r refl, of 127] installer_exit_codes [OF p d r refl, of 2]
  show ?thesis
    by (simp add: trace_emit showInt_def showNat.simps)
qed

section \<open>Progress of the download\<close>

lemma report_due:
  assumes "0 < n" and "prev \<le> got"
  shows "jgt (jdiv (Fin (100 * (of_nat (got + len) - of_nat prev))) (Fin (of_nat n))) (Fin 1)
           = (n < 100 * (got + len - prev))"
proof -
  define k where "k = got + len - prev"
  have d: "(of_nat (got + len) - of_nat prev :: rat) = of_nat k"
    using assms(2) by (simp add: of_nat_diff k_def)
  have "(1 < 100 * (of_nat k :: rat) / of_nat n) = ((of_nat n :: rat) < 100 * of_nat k)"
    using assms(1) by (simp add: less_divide_eq_1_pos)
  also have "\<dots> = ((of_nat n :: rat) < of_nat (100 * k))"
    by simp
  also have "\<dots> = (n < 100 * k)"
    by (simp only: of_nat_less_iff)
  finally have "(1 < 100 * (of_nat k :: rat) / of_nat n) = (n < 100 * k)" .
  with assms(1) show ?thesis
    unfolding d k_def [symmetric] by (simp add: jgt_def)
qed

lemma receive_policy:
  assumes "0 < n" and "prev \<le> got"
  shows "receive url fpath (Fin (of_nat n)) (map Data lens @ [End]) prev got p =
           (settle p (Resolved fpath),
            map (reportOf n) (policyReports n prev got lens)
              @ [LogInfo (''Downloaded '' @ url @ '' to '' @ fpath)])"
  using assms(2)
proof (induction lens arbitrary: prev got)
  case Nil
  then show ?case by simp
next
  case (Cons len lens)
  have nz: "Fin (of_nat n) \<noteq> Fin 0"
    using assms(1) by simp
  have d: "(of_nat (got + len) - of_nat prev :: rat) = of_nat (got + len - prev)"
    using Cons.prems by (simp add: of_nat_diff)
  have dv: "jdiv (Fin a) (Fin (of_nat n)) = Fin (a / of_nat n)" for a
    using assms(1) by simp
  note due = report_due [OF assms(1) Cons.prems, of len]
  show ?case
  proof (cases "n < 100 * (got + len - prev)")
    case True
    have step: "receive url fpath (Fin (of_nat n)) (Data len # map Data lens @ [End]) prev got p
        = apsnd ((#) (ProgressReport (jdiv (Fin (100 * (of_nat (got + len) - of_nat prev))) (Fin (of_nat n)))
              (toFixed0 (jdiv (Fin (100 * of_nat (got + len))) (Fin (of_nat n))) @ ''%'')))
            (receive url fpath (Fin (of_nat n)) (map Data lens @ [End]) (got + len) (got + len) p)"
      using nz due True by (simp only: receive.simps Let_def simp_thms if_True if_False)
    show ?thesis
      using True Cons.IH [of "got + len" "got + len"]
      unfolding list.map append_Cons step
      by (simp only: dv d reportOf_def policyReports.simps if_True apsnd_conv list.map
          append_Cons fst_conv snd_conv le_refl)
  next
    case False
    from Cons.prems have le: "prev \<le> got + len" by simp
    have step: "receive url fpath (Fin (of_nat n)) (Data len # map Data lens @ [End]) prev got p
        = receive url fpath (Fin (of_nat n)) (map Data lens @ [End]) prev (got + len) p"
      using nz due False by (simp only: receive.simps Let_def simp_thms if_True if_False)
    show ?thesis
      using False Cons.IH [OF le]
      unfolding list.map append_Cons step
      by (simp only: policyReports.simps if_False)
  qed
qed

lemma receive_settled:
  "p \<noteq> Pending \<Longrightarrow> fst (receive url fpath ts es prev got p) = p"
proof (induction es arbitrary: prev got)
  case Nil
  then show ?case by simp
next
  case (Cons e es)
  then show ?case
    by (cases e; cases p) (auto simp: Let_def)
qed

lemma receive_resolves:
  "fst (receive url fpath ts (map Data lens @ End # rest) prev got Pending) = Resolved fpath"
proof (induction lens arbitrary: prev got)
  case Nil
  show ?case by (simp add: receive_settled)
next
  case (Cons len lens)
  then show ?case by (auto simp: Let_def)
qed


lemma receive_ignores_cancellation:
  "receive url fpath ts (filter (\<lambda>e. \<not> isCancellation e) es) prev got p
     = receive url fpath ts es prev got p"
proof (induction es arbitrary: prev got p)
  case Nil
  show ?case by simp
next
  case (Cons e es)
  then show ?case
    by (cases e) (auto simp: Let_def)
qed



text \<open>
  Claim C3, as the code has it. For a response that declares a positive total and
  delivers its chunks up to the end of the stream, the progress updates are exactly
  those of the policy: one at each chunk where the bytes received since the last
  reported point exceed one percent of the declared total, carrying that share as the
  increment. At the end of the stream no progress update is emitted: the end is logged
  once and the promise resolves with the path of the file.
\<close>

theorem progress_follows_policy:
  assumes "tmpFile w = Inr fpath"
    and "requestSetup w = None"
    and "request w = Inr res"
    and "statusCode res = 200"
    and "totalSizeOf (contentLength res) = Fin (of_nat n)"
    and "0 < n"
    and "body res = map Data lens @ [End]"
  shows "downloadFile url w h =
           (Resolved fpath,
            h\<lparr>tmpFiles := fpath # tmpFiles h,
              trace := trace h @ map (reportOf n) (policyReports n 0 0 lens)
                         @ [LogInfo (''Downloaded '' @ url @ '' to '' @ fpath)]\<rparr>)"
  using assms receive_policy [of n 0 0 url fpath lens Pending]
  by (simp add: downloadFile_def Let_def)

theorem progress_follows_policy_witness:
  "downloadFile ''u''
     (sampleWorld 0 None (sampleResponse (Some (lit ''100'')) [Data 10, Data 10, Data 10, Data 10, Data 10, Data 10, Data 10, Data 10, Data 10, Data 10, End]) 0)
     (sampleHost None)
   = (Resolved ''/tmp/cmake-3.19.2-Linux-x86_64-1234.sh'',
      (sampleHost None)\<lparr>tmpFiles := [''/tmp/cmake-3.19.2-Linux-x86_64-1234.sh''],
        trace := [ProgressReport (Fin 10) ''10%'', ProgressReport (Fin 10) ''20%'',
                  ProgressReport (Fin 10) ''30%'', ProgressReport (Fin 10) ''40%'',
                  ProgressReport (Fin 10) ''50%'', ProgressReport (Fin 10) ''60%'',
                  ProgressReport (Fin 10) ''70%'', ProgressReport (Fin 10) ''80%'',
                  ProgressReport (Fin 10) ''90%'', ProgressReport (Fin 10) ''100%'',
                  LogInfo ''Downloaded u to /tmp/cmake-3.19.2-Linux-x86_64-1234.sh'']\<rparr>)"
proof -
  let ?res = "sampleResponse (Some (lit ''100'')) [Data 10, Data 10, Data 10, Data 10, Data 10, Data 10, Data 10, Data 10, Data 10, Data 10, End]"
  let ?w = "sampleWorld 0 None ?res 0"
  have a: "tmpFile ?w = Inr ''/tmp/cmake-3.19.2-Linux-x86_64-1234.sh''"
    and b: "requestSetup ?w = None"
    and c: "request ?w = Inr ?res"
    and d: "statusCode ?res = 200"
    and e: "totalSizeOf (contentLength ?res) = Fin (of_nat 100)"
    and f: "0 < (100::nat)"
    and g: "body ?res = map Data [10, 10, 10, 10, 10, 10, 10, 10, 10, 10] @ [End]"
    by (simp_all add: sampleWorld_def sampleResponse_def totalSizeOf_def parseInt_defs)
  from progress_follows_policy [OF a b c d e f g, of "''u''" "sampleHost None"]
  show ?thesis
    by (simp add: sampleHost_def reportOf_def showNat.simps floor_rat_numeral)
qed

text \<open>
  Claim C3 as the specification words it fails: with a declared total of 1000 bytes and
  chunks of 990 and 10 bytes, the only progress update says 99 percent; the last chunk is
  exactly one percent, which is not above the threshold, and the end of the stream
  reports nothing to the progress sink.
\<close>

theorem no_final_progress_report:
  "fst (downloadFile ''u''
     (sampleWorld 0 None (sampleResponse (Some (lit ''1000'')) [Data 990, Data 10, End]) 0)
     (sampleHost None)) = Resolved ''/tmp/cmake-3.19.2-Linux-x86_64-1234.sh''
   \<and> trace (snd (downloadFile ''u''
     (sampleWorld 0 None (sampleResponse (Some (lit ''1000'')) [Data 990, Data 10, End]) 0)
     (sampleHost None)))
     = [ProgressReport (Fin 99) ''99%'',
        LogInfo ''Downloaded u to /tmp/cmake-3.19.2-Linux-x86_64-1234.sh'']"
  by (simp add: downloadFile_def sampleWorld_def sampleResponse_def sampleHost_def
      totalSizeOf_def parseInt_defs jgt_def showNat.simps floor_rat_numeral Let_def)





section \<open>Cancellation\<close>

text \<open>
  Claim C5, as the code has it. A cancellation request has no effect on a download:
  the result and the host are the same as for the stream with the requests left out,
  and the temporary file, once allocated, is still there when the download has ended,
  however it ended.
\<close>

theorem cancellation_has_no_effect:
  "downloadFile url (w\<lparr>request := Inr (res\<lparr>body := es\<rparr>)\<rparr>) h
     = downloadFile url
         (w\<lparr>request := Inr (res\<lparr>body := filter (\<lambda>e. \<not> isCancellation e) es\<rparr>)\<rparr>) h
   \<and> (tmpFile w = Inr fpath \<longrightarrow>
        fpath \<in> set (tmpFiles (snd (downloadFile url (w\<lparr>request := Inr (res\<lparr>body := es\<rparr>)\<rparr>) h))))"
  by (simp add: downloadFile_def Let_def receive_ignores_cancellation
      split: sum.splits option.splits prod.splits)

theorem cancellation_has_no_effect_witness:
  "downloadFile ''u''
     (sampleWorld 0 None (sampleResponse (Some (lit ''40'')) [Data 10, CancellationRequested, Data 30, End]) 0)
     (sampleHost None)
   = downloadFile ''u''
     (sampleWorld 0 None (sampleResponse (Some (lit ''40'')) [Data 10, Data 30, End]) 0)
     (sampleHost None)
   \<and> ''/tmp/cmake-3.19.2-Linux-x86_64-1234.sh'' \<in> set (tmpFiles (snd (downloadFile ''u''
     (sampleWorld 0 None (sampleResponse (Some (lit ''40'')) [Data 10, CancellationRequested, Data 30, End]) 0)
     (sampleHost None))))"
proof -
  have w: "(sampleWorld 0 None (sampleResponse (Some (lit ''40'')) []) 0)
             \<lparr>request := Inr ((sampleResponse (Some (lit ''40'')) [])\<lparr>body := es\<rparr>)\<rparr>
           = sampleWorld 0 None (sampleResponse (Some (lit ''40'')) es) 0" for es
    by (simp add: sampleWorld_def sampleResponse_def)
  have f: "filter (\<lambda>e. \<not> isCancellation e) [Data 10, CancellationRequested, Data 30, End]
           = [Data 10, Data 30, End]"
    by simp
  have t: "tmpFile (sampleWorld 0 None (sampleResponse (Some (lit ''40'')) []) 0)
           = Inr ''/tmp/cmake-3.19.2-Linux-x86_64-1234.sh''"
    by (simp add: sampleWorld_def)
  from cancellation_has_no_effect [where url = "''u''"
      and w = "sampleWorld 0 None (sampleResponse (Some (lit ''40'')) []) 0"
      and res = "sampleResponse (Some (lit ''40'')) []"
      and es = "[Data 10, CancellationRequested, Data 30, End]"
      and h = "sampleHost None" and fpath = "''/tmp/cmake-3.19.2-Linux-x86_64-1234.sh''"] t
  show ?thesis
    unfolding w f by blast
qed

text \<open>
  Claim C5 as the specification words it fails: a download during which cancellation is
  requested after the first chunk goes on to the end of the stream and resolves with the
  path of the file, which is still on disk.
\<close>

theorem cancelled_download_resolves:
  "fst (downloadFile ''u''
     (sampleWorld 0 None (sampleResponse (Some (lit ''40'')) [Data 10, CancellationRequested, Data 30, End]) 0)
     (sampleHost None)) = Resolved ''/tmp/cmake-3.19.2-Linux-x86_64-1234.sh''
   \<and> tmpFiles (snd (downloadFile ''u''
     (sampleWorld 0 None (sampleResponse (Some (lit ''40'')) [Data 10, CancellationRequested, Data 30, End]) 0)
     (sampleHost None))) = [''/tmp/cmake-3.19.2-Linux-x86_64-1234.sh'']"
  by (simp add: downloadFile_def sampleWorld_def sampleResponse_def sampleHost_def
      totalSizeOf_def parseInt_defs jgt_def split: prod.splits)

section \<open>Stored values of other shapes\<close>

lemma downloadFile_trace_only:
  "trace h = trace h' \<Longrightarrow>
     fst (downloadFile url w h) = fst (downloadFile url w h')
     \<and> trace (snd (downloadFile url w h)) = trace (snd (downloadFile url w h'))"
  by (simp add: downloadFile_def Let_def split: sum.splits option.splits prod.splits)

lemma reportInstall_trace_only:
  "trace h = trace h' \<Longrightarrow> trace (reportInstall res w h) = trace (reportInstall res w h')"
  by (simp add: reportInstall_def Let_def trace_emit)

lemma installLinux_trace_only:
  assumes "trace h = trace h'"
  shows "fst (installLinux lib url w h) = fst (installLinux lib url w h')
         \<and> trace (snd (installLinux lib url w h)) = trace (snd (installLinux lib url w h'))"
proof (cases "pkexec w")
  case None
  with assms show ?thesis by (simp add: installLinux_def trace_emit)
next
  case (Some pk)
  let ?e = "WithProgress (''Downloading '' @ basename lib url ''.sh'')"
  obtain p h1 where d: "downloadFile url w (emit ?e h) = (p, h1)"
    by (cases "downloadFile url w (emit ?e h)")
  obtain p' h1' where d': "downloadFile url w (emit ?e h') = (p', h1')"
    by (cases "downloadFile url w (emit ?e h')")
  from assms have "trace (emit ?e h) = trace (emit ?e h')"
    by (simp add: trace_emit)
  from downloadFile_trace_only [OF this, of url w] d d'
  have same: "p' = p" "trace h1 = trace h1'" by simp_all
  then have "trace (reportInstall res w (emit a (emit b h1)))
             = trace (reportInstall res w (emit a (emit b h1')))" for res a b
    by (intro reportInstall_trace_only) (simp add: trace_emit)
  with Some d d' same show ?thesis
    by (simp add: installLinux_def Let_def trace_emit split: promise.splits)
qed

lemma checkForUpgrade_trace_only:
  assumes "trace h = trace h'"
  shows "fst (checkForUpgrade lib opt w h) = fst (checkForUpgrade lib opt w h')
         \<and> trace (snd (checkForUpgrade lib opt w h)) = trace (snd (checkForUpgrade lib opt w h'))"
proof -
  let ?q = "InformationMessage (upgradeQuestion lib opt) [doTheUpgrade, askMeLater, dontAskAgain]"
  from assms have "trace (emit ?q h) = trace (emit ?q h')"
    by (simp add: trace_emit)
  from installLinux_trace_only [OF this, of lib "linuxURL (available opt)" w] assms
  show ?thesis
    by (simp add: checkForUpgrade_def Let_def trace_emit setUpgradePreference_def
        split: sum.splits exn.splits option.splits)
qed

lemma preferenceSaysWait_other_shape:
  assumes "v \<noteq> JStr (lit ''never'')"
    and "\<forall>kvs x. v = JObj kvs \<longrightarrow> ownMember kvs (lit ''lastNag'') = Some x \<longrightarrow>
           ToNumber x = Inr NaN"
  shows "preferenceSaysWait v now = Inr False"
  using assms
  by (cases v) (simp_all add: preferenceSaysWait_def Let_def split: option.splits)

lemma preferenceSaysWait_integer:
  assumes "ownMember kvs (lit ''lastNag'') = Some x"
    and "ToNumber x = Inr (Fin (of_int t))"
  shows "preferenceSaysWait (JObj kvs) now = Inr (now - t < 1000 * 60 * 60 * 48)"
proof -
  have "(of_int now - of_int t < (172800000::rat)) = (now - t < 172800000)"
    by (simp only: of_int_diff [symmetric] of_int_less_numeral_iff)
  with assms show ?thesis
    by (simp add: preferenceSaysWait_def)
qed

lemma preferenceSaysWait_throws:
  assumes "ownMember kvs (lit ''lastNag'') = Some x"
    and "ToNumber x = Inl e"
  shows "preferenceSaysWait (JObj kvs) now = Inl e"
  using assms by (simp add: preferenceSaysWait_def)

text \<open>
  Claim C9, as the code has it. The stored value is read without any check of its
  shape, and what happens depends on what its \<open>lastNag\<close> converts to.

  \<^item> A stored value other than \<open>never\<close> is treated exactly like an absent one (same
    result, same events) when it is not an object, or is an object without a
    \<open>lastNag\<close> member, or one whose \<open>lastNag\<close> converts to \<open>NaN\<close>.
  \<^item> An object whose \<open>lastNag\<close> converts to an integer \<open>t\<close> of magnitude at most
    \<open>2\<^sup>5\<^sup>3\<close> (a string of digits, for one) acts as the record \<open>{lastNag: t}\<close>: the
    function returns at the preference test exactly when fewer than 48 hours have
    passed since \<open>t\<close>.
  \<^item> An object whose \<open>lastNag\<close> cannot be converted to a number makes the invocation
    throw the \<^verbatim>\<open>TypeError\<close> of the conversion, with the host untouched.
\<close>

theorem stored_value_of_other_shape:
  "(v \<noteq> JStr (lit ''never'')
      \<and> (\<forall>kvs x. v = JObj kvs \<longrightarrow> ownMember kvs (lit ''lastNag'') = Some x \<longrightarrow>
             ToNumber x = Inr NaN) \<longrightarrow>
      fst (maybeUpgradeCMake lib opt w
             (h\<lparr>globalState := (globalState h)(UPGRADE_PREFERENCE_KEY \<mapsto> v)\<rparr>))
        = fst (maybeUpgradeCMake lib opt w
             (h\<lparr>globalState := (globalState h)(UPGRADE_PREFERENCE_KEY := None)\<rparr>))
      \<and> trace (snd (maybeUpgradeCMake lib opt w
             (h\<lparr>globalState := (globalState h)(UPGRADE_PREFERENCE_KEY \<mapsto> v)\<rparr>)))
        = trace (snd (maybeUpgradeCMake lib opt w
             (h\<lparr>globalState := (globalState h)(UPGRADE_PREFERENCE_KEY := None)\<rparr>))))
   \<and> (platform w = ''linux'' \<and> globalState h UPGRADE_PREFERENCE_KEY = Some (JObj kvs)
        \<and> ownMember kvs (lit ''lastNag'') = Some x
        \<and> ToNumber x = Inr (Fin (of_int t)) \<and> \<bar>t\<bar> \<le> 2 ^ 53 \<longrightarrow>
      maybeUpgradeCMake lib opt w h =
        (if timeAtCheck w - t < 48 * 60 * 60 * 1000 then (Returned JUndefined, h)
         else checkForUpgrade lib opt w h))
   \<and> (platform w = ''linux'' \<and> globalState h UPGRADE_PREFERENCE_KEY = Some (JObj kvs)
        \<and> ownMember kvs (lit ''lastNag'') = Some x \<and> ToNumber x = Inl e \<longrightarrow>
      maybeUpgradeCMake lib opt w h = (Threw e, h))"
proof (intro conjI impI)
  let ?hv = "h\<lparr>globalState := (globalState h)(UPGRADE_PREFERENCE_KEY \<mapsto> v)\<rparr>"
  let ?h0 = "h\<lparr>globalState := (globalState h)(UPGRADE_PREFERENCE_KEY := None)\<rparr>"
  assume a: "v \<noteq> JStr (lit ''never'')
      \<and> (\<forall>kvs x. v = JObj kvs \<longrightarrow> ownMember kvs (lit ''lastNag'') = Some x \<longrightarrow>
             ToNumber x = Inr NaN)"
  then have gv: "preferenceSaysWait (upgradePreference ?hv) (timeAtCheck w) = Inr False"
    using preferenceSaysWait_other_shape [of v "timeAtCheck w"]
    by (simp add: upgradePreference_def)
  have g0: "preferenceSaysWait (upgradePreference ?h0) (timeAtCheck w) = Inr False"
    by (simp add: upgradePreference_def preferenceSaysWait_def)
  have t: "trace ?hv = trace ?h0" by simp
  from checkForUpgrade_trace_only [OF t, of lib opt w] gv g0
  show "fst (maybeUpgradeCMake lib opt w ?hv) = fst (maybeUpgradeCMake lib opt w ?h0)"
    by (simp add: maybeUpgradeCMake_def)
  from checkForUpgrade_trace_only [OF t, of lib opt w] gv g0
  show "trace (snd (maybeUpgradeCMake lib opt w ?hv))
          = trace (snd (maybeUpgradeCMake lib opt w ?h0))"
    by (simp add: maybeUpgradeCMake_def)
next
  assume "platform w = ''linux'' \<and> globalState h UPGRADE_PREFERENCE_KEY = Some (JObj kvs)
        \<and> ownMember kvs (lit ''lastNag'') = Some x
        \<and> ToNumber x = Inr (Fin (of_int t)) \<and> \<bar>t\<bar> \<le> 2 ^ 53"
  then show "maybeUpgradeCMake lib opt w h =
        (if timeAtCheck w - t < 48 * 60 * 60 * 1000 then (Returned JUndefined, h)
         else checkForUpgrade lib opt w h)"
    by (simp add: maybeUpgradeCMake_def upgradePreference_stored
        preferenceSaysWait_integer [of kvs x t])
next
  assume "platform w = ''linux'' \<and> globalState h UPGRADE_PREFERENCE_KEY = Some (JObj kvs)
        \<and> ownMember kvs (lit ''lastNag'') = Some x \<and> ToNumber x = Inl e"
  then show "maybeUpgradeCMake lib opt w h = (Threw e, h)"
    by (simp add: maybeUpgradeCMake_def upgradePreference_stored
        preferenceSaysWait_throws [of kvs x e])
qed

theorem stored_value_of_other_shape_witness:
  "trace (snd (maybeUpgradeCMake sampleLib sampleOpt
      (sampleWorld 1700000600000 None (sampleResponse None []) 0)
      (sampleHost (Some (JObj [(lit ''lastNag'', JStr (lit ''yesterday''))])))))
   = [InformationMessage (upgradeQuestion sampleLib sampleOpt)
        [doTheUpgrade, askMeLater, dontAskAgain]]
   \<and> trace (snd (maybeUpgradeCMake sampleLib sampleOpt
      (sampleWorld 1700000600000 None (sampleResponse None []) 0)
      (sampleHost (Some (JNum (Fin 42))))))
   = [InformationMessage (upgradeQuestion sampleLib sampleOpt)
        [doTheUpgrade, askMeLater, dontAskAgain]]
   \<and> maybeUpgradeCMake sampleLib sampleOpt
      (sampleWorld 1700000600000 None (sampleResponse None []) 0)
      (sampleHost (Some (JObj [(lit ''lastNag'', JStr (0xA0 # lit ''1700000000000''))])))
   = (Returned JUndefined,
      sampleHost (Some (JObj [(lit ''lastNag'', JStr (0xA0 # lit ''1700000000000''))])))
   \<and> maybeUpgradeCMake sampleLib sampleOpt
      (sampleWorld 1700000600000 None (sampleResponse None []) 0)
      (sampleHost (Some (JObj [(lit ''lastNag'', JArr [JObj [(lit ''toString'', JNum (Fin 0))]])])))
   = (Threw (TypeError ''Cannot convert object to primitive value''),
      sampleHost (Some (JObj [(lit ''lastNag'', JArr [JObj [(lit ''toString'', JNum (Fin 0))]])])))"
proof -
  let ?w = "sampleWorld 1700000600000 None (sampleResponse None []) 0"
  let ?s = "JObj [(lit ''lastNag'', JStr (lit ''yesterday''))]"
  let ?n = "JNum (Fin 42)"
  let ?kd = "[(lit ''lastNag'', JStr (0xA0 # lit ''1700000000000''))]"
  let ?kt = "[(lit ''lastNag'', JArr [JObj [(lit ''toString'', JNum (Fin 0))]])]"
  have hv: "(sampleHost None)\<lparr>globalState :=
               (globalState (sampleHost None))(UPGRADE_PREFERENCE_KEY \<mapsto> v)\<rparr>
            = sampleHost (Some v)" for v
    by (simp add: sampleHost_def)
  have h0: "(sampleHost None)\<lparr>globalState :=
               (globalState (sampleHost None))(UPGRADE_PREFERENCE_KEY := None)\<rparr>
            = sampleHost None"
    by (simp add: sampleHost_def)
  have a: "?s \<noteq> JStr (lit ''never'')
      \<and> (\<forall>kvs x. ?s = JObj kvs \<longrightarrow> ownMember kvs (lit ''lastNag'') = Some x \<longrightarrow>
             ToNumber x = Inr NaN)"
    by (simp add: ownMember_def StringToNumber_defs)
  have b: "?n \<noteq> JStr (lit ''never'')
      \<and> (\<forall>kvs x. ?n = JObj kvs \<longrightarrow> ownMember kvs (lit ''lastNag'') = Some x \<longrightarrow>
             ToNumber x = Inr NaN)"
    by simp
  have c: "platform ?w = ''linux''
      \<and> globalState (sampleHost (Some (JObj ?kd))) UPGRADE_PREFERENCE_KEY = Some (JObj ?kd)
      \<and> ownMember ?kd (lit ''lastNag'') = Some (JStr (0xA0 # lit ''1700000000000''))
      \<and> ToNumber (JStr (0xA0 # lit ''1700000000000'')) = Inr (Fin (of_int 1700000000000))
      \<and> \<bar>1700000000000 :: int\<bar> \<le> 2 ^ 53"
    by (simp add: sampleWorld_def sampleHost_def ownMember_def StringToNumber_defs)
  have d: "platform ?w = ''linux''
      \<and> globalState (sampleHost (Some (JObj ?kt))) UPGRADE_PREFERENCE_KEY = Some (JObj ?kt)
      \<and> ownMember ?kt (lit ''lastNag'') = Some (JArr [JObj [(lit ''toString'', JNum (Fin 0))]])
      \<and> ToNumber (JArr [JObj [(lit ''toString'', JNum (Fin 0))]])
          = Inl (TypeError ''Cannot convert object to primitive value'')"
    by (simp add: sampleWorld_def sampleHost_def ownMember_def)
  have unset: "trace (snd (maybeUpgradeCMake sampleLib sampleOpt ?w (sampleHost None)))
      = [InformationMessage (upgradeQuestion sampleLib sampleOpt)
           [doTheUpgrade, askMeLater, dontAskAgain]]"
    by (simp add: maybeUpgradeCMake_def checkForUpgrade_def sampleWorld_def sampleHost_def
        sampleLib_def upgradePreference_def preferenceSaysWait_def emit_def)
  have now: "timeAtCheck ?w - 1700000000000 < 48 * 60 * 60 * 1000"
    by (simp add: sampleWorld_def)
  from stored_value_of_other_shape [where v = ?s and lib = sampleLib and opt = sampleOpt
      and w = ?w and h = "sampleHost None"] a unset
  have one: "trace (snd (maybeUpgradeCMake sampleLib sampleOpt ?w (sampleHost (Some ?s))))
      = [InformationMessage (upgradeQuestion sampleLib sampleOpt)
           [doTheUpgrade, askMeLater, dontAskAgain]]"
    unfolding hv h0 by simp
  from stored_value_of_other_shape [where v = ?n and lib = sampleLib and opt = sampleOpt
      and w = ?w and h = "sampleHost None"] b unset
  have two: "trace (snd (maybeUpgradeCMake sampleLib sampleOpt ?w (sampleHost (Some ?n))))
      = [InformationMessage (upgradeQuestion sampleLib sampleOpt)
           [doTheUpgrade, askMeLater, dontAskAgain]]"
    unfolding hv h0 by simp
  from stored_value_of_other_shape [where lib = sampleLib and opt = sampleOpt and w = ?w
      and h = "sampleHost (Some (JObj ?kd))" and kvs = ?kd
      and x = "JStr (0xA0 # lit ''1700000000000'')" and t = 1700000000000] c now
  have three: "maybeUpgradeCMake sampleLib sampleOpt ?w (sampleHost (Some (JObj ?kd)))
      = (Returned JUndefined, sampleHost (Some (JObj ?kd)))"
    by simp
  from stored_value_of_other_shape [where lib = sampleLib and opt = sampleOpt and w = ?w
      and h = "sampleHost (Some (JObj ?kt))" and kvs = ?kt
      and x = "JArr [JObj [(lit ''toString'', JNum (Fin 0))]]"
      and e = "TypeError ''Cannot convert object to primitive value''"] d
  have four: "maybeUpgradeCMake sampleLib sampleOpt ?w (sampleHost (Some (JObj ?kt)))
      = (Threw (TypeError ''Cannot convert object to primitive value''),
         sampleHost (Some (JObj ?kt)))"
    by simp
  from one two three four show ?thesis by simp
qed

text \<open>
  Claim C9 as the specification words it fails, in both of its parts. A stored record
  whose \<open>lastNag\<close> is a string of digits is of no recognised shape, yet the subtraction
  converts the string to a number and the record defers the prompt as a numeric time
  stamp would, where the same run with nothing stored shows the prompt. And a stored
  record whose \<open>lastNag\<close> is an object with a member \<^verbatim>\<open>toString\<close> makes the subtraction
  throw, so the invocation ends with a \<^verbatim>\<open>TypeError\<close>.
\<close>

theorem corrupt_value_defers_or_throws:
  "maybeUpgradeCMake sampleLib sampleOpt
      (sampleWorld 1700000600000 None (sampleResponse None []) 0)
      (sampleHost (Some (JObj [(lit ''lastNag'', JStr (lit ''1700000000000''))])))
   = (Returned JUndefined,
      sampleHost (Some (JObj [(lit ''lastNag'', JStr (lit ''1700000000000''))])))
   \<and> trace (snd (maybeUpgradeCMake sampleLib sampleOpt
      (sampleWorld 1700000600000 None (sampleResponse None []) 0)
      (sampleHost None)))
   = [InformationMessage (upgradeQuestion sampleLib sampleOpt)
        [doTheUpgrade, askMeLater, dontAskAgain]]
   \<and> fst (maybeUpgradeCMake sampleLib sampleOpt
      (sampleWorld 1700000600000 None (sampleResponse None []) 0)
      (sampleHost (Some (JObj [(lit ''lastNag'', JObj [(lit ''toString'', JNum (Fin 0))])]))))
   = Threw (TypeError ''Cannot convert object to primitive value'')"
  by (simp add: maybeUpgradeCMake_def checkForUpgrade_def sampleWorld_def sampleHost_def
      sampleLib_def upgradePreference_def preferenceSaysWait_def emit_def ownMember_def
      StringToNumber_defs)

end
